theory Spec2Isabelle
  imports Complex_Main "HOL-Library.Word"
begin

section \<open>JavaScript values\<close>

text \<open>
  A JavaScript string is a sequence of UTF-16 code units; \<open>length\<close> counts code units,
  and a regular expression without the \<open>u\<close> flag matches code unit by code unit.
  String literals of the source are written with \<open>js\<close>; a code unit outside ASCII
  (as in \<open>inv\<aacute>lida\<close>) is written as its number.
\<close>

type_synonym code_unit = "16 word"

type_synonym jsstring = "code_unit list"

definition js :: "string \<Rightarrow> jsstring" where
  "js s = map of_char s"

text \<open>
  A JavaScript number that a form can hold. The finite doubles are rationals, so a
  statement about every \<open>Num q\<close> covers every finite double (\<open>-0\<close> behaves as \<open>0\<close>
  in every test used here).
\<close>

datatype jsnumber = NaN | NegInfinity | Num rat | PosInfinity

definition isInteger :: "jsnumber \<Rightarrow> bool" where
  \<comment> \<open>\<open>Number.isInteger\<close>, which zod's \<open>.int()\<close> applies.\<close>
  "isInteger x = (case x of Num q \<Rightarrow> q = of_int \<lfloor>q\<rfloor> | _ \<Rightarrow> False)"

definition lessThan_js :: "jsnumber \<Rightarrow> rat \<Rightarrow> bool" where
  \<comment> \<open>\<open>x < c\<close> for a finite constant \<open>c\<close>.\<close>
  "lessThan_js x c =
     (case x of NaN \<Rightarrow> False | NegInfinity \<Rightarrow> True | Num q \<Rightarrow> q < c | PosInfinity \<Rightarrow> False)"

definition greaterThan_js :: "jsnumber \<Rightarrow> rat \<Rightarrow> bool" where
  \<comment> \<open>\<open>x > c\<close> for a finite constant \<open>c\<close>.\<close>
  "greaterThan_js x c =
     (case x of NaN \<Rightarrow> False | NegInfinity \<Rightarrow> False | Num q \<Rightarrow> c < q | PosInfinity \<Rightarrow> True)"

definition startsWith :: "jsstring \<Rightarrow> jsstring \<Rightarrow> bool" where
  "startsWith s p = (take (length p) s = p)"


section \<open>The regular expressions of the form schema\<close>

definition isDigit :: "code_unit \<Rightarrow> bool" where
  \<comment> \<open>The class \<open>\d\<close>: the ten ASCII digits. \<open>\D\<close> is its complement.\<close>
  "isDigit c = (0x30 \<le> c \<and> c \<le> 0x39)"

fun replaceNonDigits :: "jsstring \<Rightarrow> jsstring" where
  \<comment> \<open>\<open>s.replace(/\D/g, '')\<close>: every match of \<open>\D\<close> is replaced by the empty string.\<close>
  "replaceNonDigits [] = []"
| "replaceNonDigits (c # cs) =
     (if isDigit c then c # replaceNonDigits cs else [] @ replaceNonDigits cs)"

definition testDigits :: "nat \<Rightarrow> jsstring \<Rightarrow> bool" where
  \<comment> \<open>\<open>/^\d{n}$/.test(s)\<close>: the whole string is exactly \<open>n\<close> digits.\<close>
  "testDigits n s = (length s = n \<and> list_all isDigit s)"


section \<open>The schema \<open>newPatientForm\<close>\<close>

record NewPatientForm =
  name :: jsstring
  age :: jsnumber
  document :: jsstring
  phone :: "jsstring option"

text \<open>\<open>errors.<field>?.message\<close> of the form state: the message shown under each input.\<close>

record FormErrors =
  name_message :: "jsstring option"
  age_message :: "jsstring option"
  document_message :: "jsstring option"
  phone_message :: "jsstring option"

definition document_refine :: "jsstring \<Rightarrow> bool" where
  "document_refine doc =
     (let cleanedDoc = replaceNonDigits doc
      in testDigits 11 cleanedDoc \<or> testDigits 9 cleanedDoc)"

definition phone_refine :: "jsstring option \<Rightarrow> bool" where
  \<comment> \<open>\<open>!phone\<close> holds of \<open>undefined\<close> and of the empty string.\<close>
  "phone_refine ph =
     (case ph of
        None \<Rightarrow> True
      | Some p \<Rightarrow> if p = [] then True else length (replaceNonDigits p) = 11)"

definition msg_name :: jsstring where
  "msg_name = js ''Digite o nome completo.''"

definition msg_nan :: jsstring where
  \<comment> \<open>zod's own message for \<open>NaN\<close>: \<open>z.number()\<close> is given none.\<close>
  "msg_nan = js ''Expected number, received nan''"

definition msg_int :: jsstring where
  "msg_int = js ''Idade deve ser um n'' @ [0xFA] @ js ''mero inteiro.''"

definition msg_min :: jsstring where
  "msg_min = js ''Idade inv'' @ [0xE1] @ js ''lida.''"

definition msg_max :: jsstring where
  "msg_max = js ''Idade muito alta.''"

definition msg_document :: jsstring where
  "msg_document = js ''Documento deve ser um CPF ou RG v'' @ [0xE1] @ js ''lido.''"

definition msg_phone :: jsstring where
  "msg_phone =
     js ''Telefone deve ser um n'' @ [0xFA] @ js ''mero de celular v'' @ [0xE1] @ js ''lido.''"

text \<open>
  The issues zod raises for each field, in the order of the checks. A number schema runs
  every check and collects each failure; \<open>NaN\<close> is refused before any check runs.
\<close>

definition name_issues :: "jsstring \<Rightarrow> jsstring list" where
  "name_issues n = (if length n < 3 then [msg_name] else [])"

definition age_issues :: "jsnumber \<Rightarrow> jsstring list" where
  "age_issues a =
     (if a = NaN then [msg_nan]
      else (if \<not> isInteger a then [msg_int] else [])
         @ (if lessThan_js a 0 then [msg_min] else [])
         @ (if greaterThan_js a 120 then [msg_max] else []))"

definition document_issues :: "jsstring \<Rightarrow> jsstring list" where
  "document_issues doc = (if document_refine doc then [] else [msg_document])"

definition phone_issues :: "jsstring option \<Rightarrow> jsstring list" where
  "phone_issues ph = (if phone_refine ph then [] else [msg_phone])"

definition firstMessage :: "jsstring list \<Rightarrow> jsstring option" where
  \<comment> \<open>The resolver keeps the first issue of each field.\<close>
  "firstMessage issues = (case issues of [] \<Rightarrow> None | m # _ \<Rightarrow> Some m)"

definition noErrors :: FormErrors where
  "noErrors =
     \<lparr>name_message = None, age_message = None, document_message = None, phone_message = None\<rparr>"

definition zodResolver :: "NewPatientForm \<Rightarrow> FormErrors + NewPatientForm" where
  \<comment> \<open>\<open>zodResolver(newPatientForm)\<close>: the parsed values, or the errors of every failing field.\<close>
  "zodResolver v =
     (if name_issues (name v) = [] \<and> age_issues (age v) = []
         \<and> document_issues (document v) = [] \<and> phone_issues (phone v) = []
      then Inr v
      else Inl \<lparr>name_message = firstMessage (name_issues (name v)),
                age_message = firstMessage (age_issues (age v)),
                document_message = firstMessage (document_issues (document v)),
                phone_message = firstMessage (phone_issues (phone v))\<rparr>)"


section \<open>The component \<open>PatientTable\<close>\<close>

text \<open>
  A row of the table. The type is declared in \<open>@/api/get-user\<close>, which is not among the
  sources; these are the fields the columns and the row actions read, all strings. The
  field names carry a suffix: \<open>name\<close>, \<open>phone\<close> and \<open>document\<close> are the form's fields.
\<close>

record PatientProps =
  id_p :: jsstring
  name_p :: jsstring
  phone_p :: jsstring
  document_p :: jsstring

datatype toast_variant = Default | Destructive

record Toast =
  variant :: toast_variant
  title :: jsstring
  description :: jsstring

text \<open>
  The state the handlers read and write: the form (\<open>useForm\<close>), the popover flag
  (\<open>useState\<close>), the list the parent passes in, and what the handlers send out: the
  notifications, the calls to the two remote operations and the query keys invalidated,
  each in the order it happened.
\<close>

record PatientTable =
  formValues :: NewPatientForm
  errors :: FormErrors
  isPopoverOpen :: bool
  tableData :: "PatientProps list"
  toasts :: "Toast list"
  registerCalls :: "NewPatientForm list"
  deleteCalls :: "jsstring list"
  invalidated :: "jsstring list list"

definition emptyForm :: NewPatientForm where
  \<comment> \<open>\<open>useForm\<close> is given no default values: every input is empty, and the number input
      read with \<open>valueAsNumber\<close> holds no number.\<close>
  "emptyForm = \<lparr>name = [], age = NaN, document = [], phone = Some []\<rparr>"

definition reset :: "PatientTable \<Rightarrow> PatientTable" where
  "reset st = st\<lparr>formValues := emptyForm, errors := noErrors\<rparr>"

definition setIsPopoverOpen :: "bool \<Rightarrow> PatientTable \<Rightarrow> PatientTable" where
  "setIsPopoverOpen b st = st\<lparr>isPopoverOpen := b\<rparr>"

definition toast :: "Toast \<Rightarrow> PatientTable \<Rightarrow> PatientTable" where
  "toast t st = st\<lparr>toasts := toasts st @ [t]\<rparr>"

definition invalidateQueries :: "jsstring list \<Rightarrow> PatientTable \<Rightarrow> PatientTable" where
  "invalidateQueries queryKey st = st\<lparr>invalidated := invalidated st @ [queryKey]\<rparr>"

text \<open>
  Modelled from the spec: the query client (\<open>@/lib/react-query\<close>) is not among the
  sources, and a mutation takes its retry count from it; the spec says an operation is
  not retried automatically, so \<open>mutateAsync\<close> runs the mutation function once. On
  success it awaits \<open>onSuccess\<close> before it resolves; on failure it rejects with the error.
  The remote operation is a parameter: \<open>Inl\<close> is a rejection.
\<close>

definition registerPatientFn ::
  "(NewPatientForm \<Rightarrow> 'e + 'r) \<Rightarrow> NewPatientForm \<Rightarrow> PatientTable \<Rightarrow> ('e + 'r) \<times> PatientTable" where
  "registerPatientFn registerPatient variables st =
     (let st1 = st\<lparr>registerCalls := registerCalls st @ [variables]\<rparr>
      in case registerPatient variables of
           Inl error \<Rightarrow> (Inl error, st1)
         | Inr r \<Rightarrow> (Inr r, invalidateQueries [js ''patients''] st1))"

definition deletePatientFn ::
  "(jsstring \<Rightarrow> 'e + 'r) \<Rightarrow> jsstring \<Rightarrow> PatientTable \<Rightarrow> ('e + 'r) \<times> PatientTable" where
  "deletePatientFn deletePatient pid st =
     (let st1 = st\<lparr>deleteCalls := deleteCalls st @ [pid]\<rparr>
      in case deletePatient pid of
           Inl error \<Rightarrow> (Inl error, st1)
         | Inr r \<Rightarrow> (Inr r, invalidateQueries [js ''patients''] st1))"

definition handleCreateNewPatient ::
  "(NewPatientForm \<Rightarrow> 'e + 'r) \<Rightarrow> ('e \<Rightarrow> jsstring) \<Rightarrow> NewPatientForm \<Rightarrow> PatientTable \<Rightarrow> PatientTable" where
  "handleCreateNewPatient registerPatient axiosErrorHandler d st =
     (case registerPatientFn registerPatient
             \<lparr>name = name d, age = age d, document = document d, phone = phone d\<rparr> st of
        (Inr r, st1) \<Rightarrow>
          toast \<lparr>variant = Default, title = js ''Pacientes'',
                 description = js ''Paciente cadastrado!''\<rparr>
            (setIsPopoverOpen False (reset st1))
      | (Inl error, st1) \<Rightarrow>
          toast \<lparr>variant = Destructive, title = js ''Pacientes'',
                 description = axiosErrorHandler error\<rparr> st1)"

definition handleDeletePatient ::
  "(jsstring \<Rightarrow> 'e + 'r) \<Rightarrow> ('e \<Rightarrow> jsstring) \<Rightarrow> jsstring \<Rightarrow> PatientTable \<Rightarrow> PatientTable" where
  "handleDeletePatient deletePatient axiosErrorHandler pid st =
     (case deletePatientFn deletePatient pid st of
        (Inr r, st1) \<Rightarrow>
          toast \<lparr>variant = Default, title = js ''Pacientes'',
                 description = js ''Paciente exclu'' @ [0xED] @ js ''do''\<rparr> st1
      | (Inl error, st1) \<Rightarrow>
          toast \<lparr>variant = Destructive, title = js ''Pacientes'',
                 description = axiosErrorHandler error\<rparr> st1)"

definition handleSubmit ::
  "(NewPatientForm \<Rightarrow> PatientTable \<Rightarrow> PatientTable) \<Rightarrow> PatientTable \<Rightarrow> PatientTable" where
  \<comment> \<open>The form's \<open>handleSubmit\<close>: the resolver runs first; the handler runs on its values
      only when no field fails, otherwise the errors are stored and nothing else happens.\<close>
  "handleSubmit onValid st =
     (case zodResolver (formValues st) of
        Inl errs \<Rightarrow> st\<lparr>errors := errs\<rparr>
      | Inr d \<Rightarrow> onValid d (st\<lparr>errors := noErrors\<rparr>))"

definition onSubmit ::
  "(NewPatientForm \<Rightarrow> 'e + 'r) \<Rightarrow> ('e \<Rightarrow> jsstring) \<Rightarrow> PatientTable \<Rightarrow> PatientTable" where
  \<comment> \<open>\<open>onSubmit={handleSubmit(handleCreateNewPatient)}\<close>\<close>
  "onSubmit registerPatient axiosErrorHandler =
     handleSubmit (handleCreateNewPatient registerPatient axiosErrorHandler)"

datatype dialog_button = AlertDialogCancel | AlertDialogAction

definition alertDialogClick ::
  "(jsstring \<Rightarrow> 'e + 'r) \<Rightarrow> ('e \<Rightarrow> jsstring) \<Rightarrow> PatientProps \<Rightarrow> dialog_button
     \<Rightarrow> PatientTable \<Rightarrow> PatientTable" where
  \<comment> \<open>The footer of a row's dialog: only the action button has a handler.\<close>
  "alertDialogClick deletePatient axiosErrorHandler patient button st =
     (case button of
        AlertDialogCancel \<Rightarrow> st
      | AlertDialogAction \<Rightarrow> handleDeletePatient deletePatient axiosErrorHandler (id_p patient) st)"

definition documentCell ::
  "(jsstring \<Rightarrow> jsstring) \<Rightarrow> (jsstring \<Rightarrow> jsstring) \<Rightarrow> PatientProps \<Rightarrow> jsstring" where
  \<comment> \<open>The label of the document column; the two masks come from \<open>masks-br\<close>.\<close>
  "documentCell rgMask cpfMask row =
     (let doc = document_p row
      in if length doc = 9 then js ''RG: '' @ rgMask doc else js ''CPF: '' @ cpfMask doc)"

definition digitLength :: "jsstring \<Rightarrow> nat" where
  \<comment> \<open>The spec's digit length of a document: the number of digits left after stripping.\<close>
  "digitLength s = length (filter isDigit s)"


section \<open>The page \<open>Home\<close>\<close>

text \<open>
  Modelled from the spec: the user record is declared in \<open>@/api/get-user\<close>, which is not
  among the sources. The page reads only \<open>crm\<close>, an optional field that the spec calls a
  professional licence identifier: an optional string here. A card is its title and its
  target; the icon and the description play no part in what is rendered or not.
\<close>

record User =
  crm :: "jsstring option"

datatype FeatureCard = FeatureCard (card_title: jsstring) (card_to: jsstring)

definition truthy :: "jsstring option \<Rightarrow> bool" where
  \<comment> \<open>JavaScript truthiness of an optional string: \<open>undefined\<close> and \<open>''\<close> are falsy.\<close>
  "truthy v = (case v of None \<Rightarrow> False | Some s \<Rightarrow> s \<noteq> [])"

definition user_crm :: "User option \<Rightarrow> jsstring option" where
  \<comment> \<open>\<open>user?.crm\<close>; the query's data is \<open>undefined\<close> until the user is fetched.\<close>
  "user_crm user = (case user of None \<Rightarrow> None | Some u \<Rightarrow> crm u)"

definition cardAgenda :: FeatureCard where
  "cardAgenda = FeatureCard (js ''Agenda'') (js ''schedule'')"

definition cardFinanceiro :: FeatureCard where
  "cardFinanceiro = FeatureCard (js ''Financeiro'') (js ''financial'')"

definition cardPacientes :: FeatureCard where
  "cardPacientes = FeatureCard (js ''Pacientes'') (js ''patients'')"

definition cardAnamnese :: FeatureCard where
  "cardAnamnese = FeatureCard (js ''Anamnese'') (js ''anamnesis'')"

definition cardReceituario :: FeatureCard where
  "cardReceituario = FeatureCard (js ''Receitu'' @ [0xE1] @ js ''rio'') (js ''prescription'')"

definition Home :: "User option \<Rightarrow> FeatureCard list" where
  \<comment> \<open>The tiles of the grid, in the order they are rendered.\<close>
  "Home user =
     [cardAgenda, cardFinanceiro, cardPacientes]
     @ (if truthy (user_crm user) then [cardAnamnese] else [])
     @ [cardReceituario]"



section \<open>Sample inputs\<close>

text \<open>The component as it is first rendered over a list of rows.\<close>

definition initialTable :: "PatientProps list \<Rightarrow> PatientTable" where
  "initialTable rows =
     \<lparr>formValues = emptyForm, errors = noErrors, isPopoverOpen = False, tableData = rows,
      toasts = [], registerCalls = [], deleteCalls = [], invalidated = []\<rparr>"

definition editing :: "NewPatientForm \<Rightarrow> PatientTable \<Rightarrow> PatientTable" where
  \<comment> \<open>The popover has been opened and the inputs hold \<open>v\<close>.\<close>
  "editing v st = st\<lparr>isPopoverOpen := True, formValues := v\<rparr>"

definition mariaSilva :: NewPatientForm where
  "mariaSilva =
     \<lparr>name = js ''Maria Silva'', age = Num 34, document = js ''12345678901'',
      phone = Some (js ''11987654321'')\<rparr>"

definition shortName :: NewPatientForm where
  "shortName = mariaSilva\<lparr>name := js ''Jo''\<rparr>"

definition tooOld :: NewPatientForm where
  "tooOld = mariaSilva\<lparr>age := Num 121\<rparr>"

definition negativeAge :: NewPatientForm where
  "negativeAge = mariaSilva\<lparr>age := Num (- 1)\<rparr>"

definition punctuated :: NewPatientForm where
  "punctuated =
     \<lparr>name = js ''Ana Souza'', age = Num 41, document = js ''1234567-89'',
      phone = Some (js ''11 98765-4321'')\<rparr>"

definition patientAna :: PatientProps where
  "patientAna =
     \<lparr>id_p = js ''p-17'', name_p = js ''Ana Souza'', phone_p = js ''11987654321'',
      document_p = js ''1234567-89''\<rparr>"

datatype api_error = NetworkError | ServerError jsstring

definition translate :: "api_error \<Rightarrow> jsstring" where
  "translate e = (case e of NetworkError \<Rightarrow> js ''Network Error'' | ServerError m \<Rightarrow> m)"

definition offline :: "'a \<Rightarrow> api_error + unit" where
  "offline x = Inl NetworkError"

definition online :: "'a \<Rightarrow> api_error + unit" where
  "online x = Inr ()"


section \<open>The document validator\<close>

lemma replaceNonDigits_filter: "replaceNonDigits s = filter isDigit s"
  by (induction s) simp_all

lemma testDigits_filter: "testDigits n (filter isDigit s) = (length (filter isDigit s) = n)"
  by (simp add: testDigits_def list_all_iff)

text \<open>
  C1. The document rule accepts a string exactly when the string left after removing
  every non-digit has length 11 or length 9. The rule is a total function of the string
  alone, and it rejects the empty string.
\<close>

theorem document_refine_iff:
  "document_refine doc = (length (filter isDigit doc) = 11 \<or> length (filter isDigit doc) = 9)
   \<and> \<not> document_refine []"
proof
  show "document_refine doc
          = (length (filter isDigit doc) = 11 \<or> length (filter isDigit doc) = 9)"
    by (simp add: document_refine_def Let_def replaceNonDigits_filter testDigits_filter)
  show "\<not> document_refine []"
    by (simp add: document_refine_def testDigits_def)
qed

theorem document_refine_iff_witness:
  "document_refine (js ''123.456.789-01'') \<and> document_refine (js ''12.345.678-9'')
   \<and> \<not> document_refine (js ''1234567890'') \<and> \<not> document_refine []"
  using document_refine_iff [of "js ''123.456.789-01''"]
    document_refine_iff [of "js ''12.345.678-9''"]
    document_refine_iff [of "js ''1234567890''"]
  by (simp add: js_def isDigit_def)


section \<open>The field rules\<close>

lemma NewPatientForm_eta:
  "\<lparr>name = name v, age = age v, document = document v, phone = phone v\<rparr> = (v::NewPatientForm)"
  by (cases v) simp

lemma age_issues_Num:
  "age_issues (Num q) =
     (if q = of_int \<lfloor>q\<rfloor> then [] else [msg_int])
     @ (if q < 0 then [msg_min] else []) @ (if 120 < q then [msg_max] else [])"
  by (simp add: age_issues_def isInteger_def lessThan_js_def greaterThan_js_def)

text \<open>The age rule passes exactly on the integers from 0 to 120.\<close>

lemma age_issues_Nil_iff:
  "(age_issues a = []) = (\<exists>n. a = Num (of_int n) \<and> 0 \<le> n \<and> n \<le> 120)"
proof (cases a)
  case (Num q)
  show ?thesis
  proof
    assume "age_issues a = []"
    with Num have q: "q = of_int \<lfloor>q\<rfloor>" "\<not> q < 0" "\<not> 120 < q"
      by (auto simp: age_issues_Num split: if_splits)
    from q(2,3) have "0 \<le> \<lfloor>q\<rfloor>" "\<lfloor>q\<rfloor> \<le> 120"
      by (simp_all add: floor_le_iff)
    with q(1) Num show "\<exists>n. a = Num (of_int n) \<and> 0 \<le> n \<and> n \<le> 120"
      by blast
  next
    assume "\<exists>n. a = Num (of_int n) \<and> 0 \<le> n \<and> n \<le> 120"
    then obtain n where "a = Num (of_int n)" "0 \<le> n" "n \<le> 120"
      by blast
    then show "age_issues a = []"
      by (simp add: age_issues_Num)
  qed
qed (simp_all add: age_issues_def isInteger_def lessThan_js_def greaterThan_js_def
      msg_nan_def js_def)

lemma age_issues_121: "age_issues (Num 121) = [msg_max]"
  by (simp add: age_issues_Num)

lemma age_issues_minus_1: "age_issues (Num (- 1)) = [msg_min]"
  by (simp add: age_issues_Num)

lemma zodResolver_Inr_iff:
  "(zodResolver v = Inr d) =
     (d = v \<and> 3 \<le> length (name v) \<and> age_issues (age v) = []
      \<and> document_refine (document v) \<and> phone_refine (phone v))"
  by (auto simp: zodResolver_def name_issues_def document_issues_def phone_issues_def)

lemma zodResolver_Inl_iff:
  "(\<exists>e. zodResolver v = Inl e) =
     (length (name v) < 3 \<or> age_issues (age v) \<noteq> []
      \<or> \<not> document_refine (document v) \<or> \<not> phone_refine (phone v))"
  by (auto simp: zodResolver_def name_issues_def document_issues_def phone_issues_def)

lemma zodResolver_Inl_messages:
  assumes "zodResolver v = Inl e"
  shows "name_message e = firstMessage (name_issues (name v))"
    and "age_message e = firstMessage (age_issues (age v))"
    and "document_message e = firstMessage (document_issues (document v))"
    and "phone_message e = firstMessage (phone_issues (phone v))"
  using assms by (auto simp: zodResolver_def split: if_splits)

lemma mariaSilva_rules:
  "3 \<le> length (name mariaSilva)" "age_issues (Num 34) = []"
  "document_refine (js ''12345678901'')" "phone_refine (Some (js ''11987654321''))"
  by (simp_all add: mariaSilva_def age_issues_Num document_refine_def phone_refine_def
      testDigits_def js_def isDigit_def)

text \<open>
  C8. The phone rule treats the empty string as it treats an absent value: both pass, so
  a submission whose phone is absent or empty is never held back by the phone field (if
  the resolver reports errors, none is the phone's). A non-empty phone passes exactly
  when it strips to 11 digits.
\<close>

theorem phone_empty_as_absent:
  "phone_refine None \<and> phone_refine (Some [])
   \<and> (p \<noteq> [] \<longrightarrow> phone_refine (Some p) = (length (filter isDigit p) = 11))
   \<and> (phone v = None \<or> phone v = Some [] \<longrightarrow>
        (case zodResolver v of Inl e \<Rightarrow> phone_message e = None | Inr d \<Rightarrow> d = v))"
proof -
  have 1: "phone_refine None" and 2: "phone_refine (Some [])"
    by (simp_all add: phone_refine_def)
  have 3: "phone_refine (Some p) = (length (filter isDigit p) = 11)" if "p \<noteq> []"
    using that by (simp add: phone_refine_def replaceNonDigits_filter)
  have 4: "(case zodResolver v of Inl e \<Rightarrow> phone_message e = None | Inr d \<Rightarrow> d = v)"
    if "phone v = None \<or> phone v = Some []"
  proof (cases "zodResolver v")
    case (Inl e)
    from that 1 2 have "phone_issues (phone v) = []"
      by (auto simp: phone_issues_def)
    with zodResolver_Inl_messages(4) [OF Inl] Inl show ?thesis
      by (simp add: firstMessage_def)
  next
    case (Inr d)
    then have "d = v"
      by (simp add: zodResolver_Inr_iff)
    with Inr show ?thesis
      by simp
  qed
  from 1 2 3 4 show ?thesis by blast
qed

theorem phone_empty_as_absent_witness:
  "phone_refine None \<and> phone_refine (Some [])
   \<and> phone_refine (Some (js ''(11) 98765-4321''))
   \<and> \<not> phone_refine (Some (js ''1198765''))
   \<and> zodResolver (mariaSilva\<lparr>phone := Some []\<rparr>) = Inr (mariaSilva\<lparr>phone := Some []\<rparr>)
   \<and> zodResolver (mariaSilva\<lparr>phone := None\<rparr>) = Inr (mariaSilva\<lparr>phone := None\<rparr>)"
proof -
  have a: "\<exists>d. zodResolver (mariaSilva\<lparr>phone := Some []\<rparr>) = Inr d"
    using mariaSilva_rules
    by (simp add: zodResolver_Inr_iff mariaSilva_def phone_refine_def)
  have b: "\<exists>d. zodResolver (mariaSilva\<lparr>phone := None\<rparr>) = Inr d"
    using mariaSilva_rules
    by (simp add: zodResolver_Inr_iff mariaSilva_def phone_refine_def)
  show ?thesis
    using phone_empty_as_absent [of "js ''(11) 98765-4321''" "mariaSilva\<lparr>phone := Some []\<rparr>"]
      phone_empty_as_absent [of "js ''1198765''" "mariaSilva\<lparr>phone := None\<rparr>"] a b
    by (auto simp: js_def isDigit_def)
qed


section \<open>The handlers\<close>

lemma handleCreateNewPatient_Inr:
  assumes "registerPatient \<lparr>name = name d, age = age d, document = document d, phone = phone d\<rparr>
             = Inr r"
  shows "handleCreateNewPatient registerPatient h d st =
     st\<lparr>formValues := emptyForm, errors := noErrors, isPopoverOpen := False,
        toasts := toasts st @ [\<lparr>variant = Default, title = js ''Pacientes'',
                                 description = js ''Paciente cadastrado!''\<rparr>],
        registerCalls := registerCalls st
           @ [\<lparr>name = name d, age = age d, document = document d, phone = phone d\<rparr>],
        invalidated := invalidated st @ [[js ''patients'']]\<rparr>"
  using assms
  by (simp add: handleCreateNewPatient_def registerPatientFn_def Let_def invalidateQueries_def
      toast_def setIsPopoverOpen_def reset_def)

lemma handleCreateNewPatient_Inl:
  assumes "registerPatient \<lparr>name = name d, age = age d, document = document d, phone = phone d\<rparr>
             = Inl e"
  shows "handleCreateNewPatient registerPatient h d st =
     st\<lparr>toasts := toasts st @ [\<lparr>variant = Destructive, title = js ''Pacientes'',
                                 description = h e\<rparr>],
        registerCalls := registerCalls st
           @ [\<lparr>name = name d, age = age d, document = document d, phone = phone d\<rparr>]\<rparr>"
  using assms
  by (simp add: handleCreateNewPatient_def registerPatientFn_def Let_def toast_def)

lemma registerCalls_handleCreateNewPatient:
  "registerCalls (handleCreateNewPatient registerPatient h d st) =
     registerCalls st @ [\<lparr>name = name d, age = age d, document = document d, phone = phone d\<rparr>]"
  by (cases "registerPatient \<lparr>name = name d, age = age d, document = document d, phone = phone d\<rparr>")
     (simp_all add: handleCreateNewPatient_Inl handleCreateNewPatient_Inr)

lemma handleDeletePatient_Inr:
  assumes "deletePatient pid = Inr r"
  shows "handleDeletePatient deletePatient h pid st =
     st\<lparr>toasts := toasts st @ [\<lparr>variant = Default, title = js ''Pacientes'',
                                 description = js ''Paciente exclu'' @ [0xED] @ js ''do''\<rparr>],
        deleteCalls := deleteCalls st @ [pid],
        invalidated := invalidated st @ [[js ''patients'']]\<rparr>"
  using assms
  by (simp add: handleDeletePatient_def deletePatientFn_def Let_def invalidateQueries_def toast_def)

lemma handleDeletePatient_Inl:
  assumes "deletePatient pid = Inl e"
  shows "handleDeletePatient deletePatient h pid st =
     st\<lparr>toasts := toasts st @ [\<lparr>variant = Destructive, title = js ''Pacientes'',
                                 description = h e\<rparr>],
        deleteCalls := deleteCalls st @ [pid]\<rparr>"
  using assms
  by (simp add: handleDeletePatient_def deletePatientFn_def Let_def toast_def)

lemma deleteCalls_handleDeletePatient:
  "deleteCalls (handleDeletePatient deletePatient h pid st) = deleteCalls st @ [pid]"
  by (cases "deletePatient pid") (simp_all add: handleDeletePatient_Inl handleDeletePatient_Inr)

lemma onSubmit_valid:
  assumes "zodResolver (formValues st) = Inr d"
  shows "onSubmit registerPatient h st =
           handleCreateNewPatient registerPatient h d (st\<lparr>errors := noErrors\<rparr>)"
  using assms by (simp add: onSubmit_def handleSubmit_def)

lemma onSubmit_invalid:
  assumes "zodResolver (formValues st) = Inl e"
  shows "onSubmit registerPatient h st = st\<lparr>errors := e\<rparr>"
  using assms by (simp add: onSubmit_def handleSubmit_def)

text \<open>
  C2. When the four field rules pass (a name of at least 3 code units, an integer age
  from 0 to 120, a document and a phone that pass their refinements), submitting the form
  adds exactly one register call, whose payload holds the entered name, age, document and
  phone. If that call succeeds, the form is back to its empty values, the popover is
  closed, and the key \<open>patients\<close> has been invalidated exactly once.
\<close>

theorem submit_valid_registers_once:
  assumes "formValues st = v"
    and "3 \<le> length (name v)"
    and "age v = Num (of_int n)" and "0 \<le> n" and "n \<le> 120"
    and "document_refine (document v)"
    and "phone_refine (phone v)"
  shows "registerCalls (onSubmit registerPatient h st) =
           registerCalls st
           @ [\<lparr>name = name v, age = age v, document = document v, phone = phone v\<rparr>]
       \<and> (registerPatient v = Inr r \<longrightarrow>
            formValues (onSubmit registerPatient h st) = emptyForm
          \<and> \<not> isPopoverOpen (onSubmit registerPatient h st)
          \<and> invalidated (onSubmit registerPatient h st) = invalidated st @ [[js ''patients'']])"
proof -
  have "age_issues (age v) = []"
    using assms(3-5) age_issues_Nil_iff by blast
  with assms have ok: "zodResolver (formValues st) = Inr v"
    by (simp add: zodResolver_Inr_iff)
  have sub: "onSubmit registerPatient h st =
      handleCreateNewPatient registerPatient h v (st\<lparr>errors := noErrors\<rparr>)"
    by (rule onSubmit_valid [OF ok])
  have calls: "registerCalls (onSubmit registerPatient h st) =
           registerCalls st
           @ [\<lparr>name = name v, age = age v, document = document v, phone = phone v\<rparr>]"
    by (simp add: sub registerCalls_handleCreateNewPatient)
  have succ: "formValues (onSubmit registerPatient h st) = emptyForm
          \<and> \<not> isPopoverOpen (onSubmit registerPatient h st)
          \<and> invalidated (onSubmit registerPatient h st) = invalidated st @ [[js ''patients'']]"
    if "registerPatient v = Inr r"
  proof -
    from that have "registerPatient
        \<lparr>name = name v, age = age v, document = document v, phone = phone v\<rparr> = Inr r"
      by (simp only: NewPatientForm_eta)
    then show ?thesis
      by (simp add: sub handleCreateNewPatient_Inr)
  qed
  from calls succ show ?thesis by blast
qed

theorem submit_valid_registers_once_witness:
  "registerCalls (onSubmit online translate (editing mariaSilva (initialTable [])))
     = [\<lparr>name = js ''Maria Silva'', age = Num 34, document = js ''12345678901'',
         phone = Some (js ''11987654321'')\<rparr>]
   \<and> formValues (onSubmit online translate (editing mariaSilva (initialTable []))) = emptyForm
   \<and> \<not> isPopoverOpen (onSubmit online translate (editing mariaSilva (initialTable [])))
   \<and> invalidated (onSubmit online translate (editing mariaSilva (initialTable [])))
     = [[js ''patients'']]"
proof -
  have doc: "document_refine (document mariaSilva)"
    using mariaSilva_rules(3) by (simp add: mariaSilva_def)
  have ph: "phone_refine (phone mariaSilva)"
    using mariaSilva_rules(4) by (simp add: mariaSilva_def)
  have ag: "age mariaSilva = Num (of_int 34)"
    by (simp add: mariaSilva_def)
  have fv: "formValues (editing mariaSilva (initialTable [])) = mariaSilva"
    by (simp add: editing_def)
  show ?thesis
    using submit_valid_registers_once
      [OF fv mariaSilva_rules(1) ag _ _ doc ph, of online translate "()"]
    by (simp add: mariaSilva_def editing_def initialTable_def online_def)
qed

text \<open>
  C4. When a field rule fails, submitting adds no register call (and no invalidation and
  no notification; the entered values and the popover stay as they were), and the failing
  field shows its message: a name shorter than 3 code units shows
  \<open>Digite o nome completo.\<close>, the age 121 shows \<open>Idade muito alta.\<close>, and the age -1 shows
  \<open>Idade inv\<aacute>lida.\<close>.
\<close>

theorem validation_blocks_submission:
  assumes "formValues st = v"
    and "length (name v) < 3 \<or> (\<nexists>n. age v = Num (of_int n) \<and> 0 \<le> n \<and> n \<le> 120)
         \<or> \<not> document_refine (document v) \<or> \<not> phone_refine (phone v)"
  shows "registerCalls (onSubmit registerPatient h st) = registerCalls st
       \<and> invalidated (onSubmit registerPatient h st) = invalidated st
       \<and> formValues (onSubmit registerPatient h st) = v
       \<and> isPopoverOpen (onSubmit registerPatient h st) = isPopoverOpen st
       \<and> toasts (onSubmit registerPatient h st) = toasts st
       \<and> (length (name v) < 3 \<longrightarrow>
            name_message (errors (onSubmit registerPatient h st))
              = Some (js ''Digite o nome completo.''))
       \<and> (age v = Num 121 \<longrightarrow>
            age_message (errors (onSubmit registerPatient h st))
              = Some (js ''Idade muito alta.''))
       \<and> (age v = Num (- 1) \<longrightarrow>
            age_message (errors (onSubmit registerPatient h st))
              = Some (js ''Idade inv'' @ [0xE1] @ js ''lida.''))"
proof -
  from assms(2) have "length (name v) < 3 \<or> age_issues (age v) \<noteq> []
         \<or> \<not> document_refine (document v) \<or> \<not> phone_refine (phone v)"
    by (simp only: age_issues_Nil_iff)
  then obtain e where e: "zodResolver v = Inl e"
    using zodResolver_Inl_iff [of v] by blast
  with assms(1) have sub: "onSubmit registerPatient h st = st\<lparr>errors := e\<rparr>"
    by (simp add: onSubmit_invalid)
  have nm: "name_message e = Some (js ''Digite o nome completo.'')" if "length (name v) < 3"
    using that zodResolver_Inl_messages(1) [OF e]
    by (simp add: name_issues_def firstMessage_def msg_name_def)
  have mx: "age_message e = Some (js ''Idade muito alta.'')" if "age v = Num 121"
    using that zodResolver_Inl_messages(2) [OF e]
    by (simp add: age_issues_121 firstMessage_def msg_max_def)
  have mn: "age_message e = Some (js ''Idade inv'' @ [0xE1] @ js ''lida.'')"
    if "age v = Num (- 1)"
    using that zodResolver_Inl_messages(2) [OF e]
    by (simp add: age_issues_minus_1 firstMessage_def msg_min_def)
  show ?thesis
    using nm mx mn assms(1) by (simp add: sub)
qed

theorem validation_blocks_submission_witness:
  "registerCalls (onSubmit online translate (editing shortName (initialTable []))) = []
   \<and> name_message (errors (onSubmit online translate (editing shortName (initialTable []))))
       = Some (js ''Digite o nome completo.'')
   \<and> registerCalls (onSubmit online translate (editing tooOld (initialTable []))) = []
   \<and> age_message (errors (onSubmit online translate (editing tooOld (initialTable []))))
       = Some (js ''Idade muito alta.'')
   \<and> registerCalls (onSubmit online translate (editing negativeAge (initialTable []))) = []
   \<and> age_message (errors (onSubmit online translate (editing negativeAge (initialTable []))))
       = Some (js ''Idade inv'' @ [0xE1] @ js ''lida.'')"
proof -
  have a: "formValues (editing shortName (initialTable [])) = shortName"
    and b: "formValues (editing tooOld (initialTable [])) = tooOld"
    and c: "formValues (editing negativeAge (initialTable [])) = negativeAge"
    by (simp_all add: editing_def)
  have la: "length (name shortName) < 3"
    by (simp add: shortName_def js_def)
  have lb: "age tooOld = Num 121"
    by (simp add: tooOld_def)
  have lc: "age negativeAge = Num (- 1)"
    by (simp add: negativeAge_def)
  have a': "length (name shortName) < 3
         \<or> (\<nexists>n. age shortName = Num (of_int n) \<and> 0 \<le> n \<and> n \<le> 120)
         \<or> \<not> document_refine (document shortName) \<or> \<not> phone_refine (phone shortName)"
    using la by simp
  have "\<nexists>n. Num 121 = Num (of_int n) \<and> 0 \<le> n \<and> n \<le> 120"
    using age_issues_Nil_iff [of "Num 121"] by (simp add: age_issues_121)
  then have b': "length (name tooOld) < 3
         \<or> (\<nexists>n. age tooOld = Num (of_int n) \<and> 0 \<le> n \<and> n \<le> 120)
         \<or> \<not> document_refine (document tooOld) \<or> \<not> phone_refine (phone tooOld)"
    by (simp add: lb)
  have "\<nexists>n. Num (- 1) = Num (of_int n) \<and> 0 \<le> n \<and> n \<le> 120"
    using age_issues_Nil_iff [of "Num (- 1)"] by (simp add: age_issues_minus_1)
  then have c': "length (name negativeAge) < 3
         \<or> (\<nexists>n. age negativeAge = Num (of_int n) \<and> 0 \<le> n \<and> n \<le> 120)
         \<or> \<not> document_refine (document negativeAge) \<or> \<not> phone_refine (phone negativeAge)"
    by (simp add: lc)
  show ?thesis
    using validation_blocks_submission [OF a a', of online translate]
      validation_blocks_submission [OF b b', of online translate]
      validation_blocks_submission [OF c c', of online translate]
      la lb lc
    by (simp add: editing_def initialTable_def)
qed

text \<open>
  C10. For every submission the resolver accepts, the register call's payload holds the
  document and the phone exactly as the form holds them: the stripping of non-digits
  happens only inside the two refinements.
\<close>

theorem payload_is_verbatim:
  assumes "zodResolver (formValues st) = Inr d"
  shows "map document (registerCalls (onSubmit registerPatient h st))
           = map document (registerCalls st) @ [document (formValues st)]
       \<and> map phone (registerCalls (onSubmit registerPatient h st))
           = map phone (registerCalls st) @ [phone (formValues st)]"
proof -
  from assms have "d = formValues st"
    by (simp add: zodResolver_Inr_iff)
  then show ?thesis
    by (simp add: onSubmit_valid [OF assms] registerCalls_handleCreateNewPatient)
qed

theorem payload_is_verbatim_witness:
  "map document (registerCalls (onSubmit online translate (editing punctuated (initialTable []))))
     = [js ''1234567-89'']
   \<and> map phone (registerCalls (onSubmit online translate (editing punctuated (initialTable []))))
     = [Some (js ''11 98765-4321'')]
   \<and> replaceNonDigits (js ''1234567-89'') = js ''123456789''
   \<and> replaceNonDigits (js ''11 98765-4321'') = js ''11987654321''"
proof -
  have ag: "age_issues (Num 41) = []"
    by (simp add: age_issues_Num)
  have ok: "zodResolver (formValues (editing punctuated (initialTable []))) = Inr punctuated"
    by (simp add: zodResolver_Inr_iff editing_def punctuated_def ag document_refine_def
        phone_refine_def testDigits_def js_def isDigit_def)
  show ?thesis
    using payload_is_verbatim [OF ok, of online translate]
    by (simp add: editing_def initialTable_def punctuated_def js_def isDigit_def)
qed

text \<open>
  C3. For every row, pressing the dialog's confirm button adds exactly one delete call,
  with that row's id; if the call succeeds, the key \<open>patients\<close> is invalidated exactly
  once. Pressing cancel changes nothing: no delete call is added.
\<close>

theorem confirm_deletes_once_cancel_none:
  "deleteCalls (alertDialogClick deletePatient h p AlertDialogAction st)
     = deleteCalls st @ [id_p p]
   \<and> (deletePatient (id_p p) = Inr r \<longrightarrow>
        invalidated (alertDialogClick deletePatient h p AlertDialogAction st)
          = invalidated st @ [[js ''patients'']])
   \<and> alertDialogClick deletePatient h p AlertDialogCancel st = st
   \<and> deleteCalls (alertDialogClick deletePatient h p AlertDialogCancel st) = deleteCalls st"
  by (simp add: alertDialogClick_def deleteCalls_handleDeletePatient handleDeletePatient_Inr)

theorem confirm_deletes_once_cancel_none_witness:
  "deleteCalls (alertDialogClick online translate patientAna AlertDialogAction
       (initialTable [patientAna])) = [js ''p-17'']
   \<and> invalidated (alertDialogClick online translate patientAna AlertDialogAction
       (initialTable [patientAna])) = [[js ''patients'']]
   \<and> deleteCalls (alertDialogClick online translate patientAna AlertDialogCancel
       (initialTable [patientAna])) = []"
  using confirm_deletes_once_cancel_none
    [of online translate patientAna "initialTable [patientAna]" "()"]
  by (simp add: initialTable_def patientAna_def online_def)

text \<open>
  C6. When the register call fails, the handler shows one destructive notification whose
  text is the error translated by the helper, the call has been made once, and the form's
  values, the popover flag, the list of rows and the invalidated keys are as before. The
  same holds of a failing delete call.
\<close>

theorem failure_keeps_state:
  "(registerPatient \<lparr>name = name d, age = age d, document = document d, phone = phone d\<rparr>
      = Inl e \<longrightarrow>
      toasts (handleCreateNewPatient registerPatient h d st)
        = toasts st @ [\<lparr>variant = Destructive, title = js ''Pacientes'', description = h e\<rparr>]
    \<and> registerCalls (handleCreateNewPatient registerPatient h d st)
        = registerCalls st
          @ [\<lparr>name = name d, age = age d, document = document d, phone = phone d\<rparr>]
    \<and> formValues (handleCreateNewPatient registerPatient h d st) = formValues st
    \<and> isPopoverOpen (handleCreateNewPatient registerPatient h d st) = isPopoverOpen st
    \<and> tableData (handleCreateNewPatient registerPatient h d st) = tableData st
    \<and> invalidated (handleCreateNewPatient registerPatient h d st) = invalidated st)
   \<and> (deletePatient pid = Inl e \<longrightarrow>
      toasts (handleDeletePatient deletePatient h pid st)
        = toasts st @ [\<lparr>variant = Destructive, title = js ''Pacientes'', description = h e\<rparr>]
    \<and> deleteCalls (handleDeletePatient deletePatient h pid st) = deleteCalls st @ [pid]
    \<and> formValues (handleDeletePatient deletePatient h pid st) = formValues st
    \<and> isPopoverOpen (handleDeletePatient deletePatient h pid st) = isPopoverOpen st
    \<and> tableData (handleDeletePatient deletePatient h pid st) = tableData st
    \<and> invalidated (handleDeletePatient deletePatient h pid st) = invalidated st)"
  by (simp add: handleCreateNewPatient_Inl handleDeletePatient_Inl)

theorem failure_keeps_state_witness:
  "toasts (handleCreateNewPatient offline translate mariaSilva
       (editing mariaSilva (initialTable [patientAna])))
     = [\<lparr>variant = Destructive, title = js ''Pacientes'', description = js ''Network Error''\<rparr>]
   \<and> registerCalls (handleCreateNewPatient offline translate mariaSilva
       (editing mariaSilva (initialTable [patientAna]))) = [mariaSilva]
   \<and> formValues (handleCreateNewPatient offline translate mariaSilva
       (editing mariaSilva (initialTable [patientAna]))) = mariaSilva
   \<and> isPopoverOpen (handleCreateNewPatient offline translate mariaSilva
       (editing mariaSilva (initialTable [patientAna])))
   \<and> invalidated (handleCreateNewPatient offline translate mariaSilva
       (editing mariaSilva (initialTable [patientAna]))) = []
   \<and> toasts (handleDeletePatient offline translate (js ''p-17'') (initialTable [patientAna]))
     = [\<lparr>variant = Destructive, title = js ''Pacientes'', description = js ''Network Error''\<rparr>]
   \<and> deleteCalls (handleDeletePatient offline translate (js ''p-17'')
       (initialTable [patientAna])) = [js ''p-17'']
   \<and> tableData (handleDeletePatient offline translate (js ''p-17'')
       (initialTable [patientAna])) = [patientAna]
   \<and> invalidated (handleDeletePatient offline translate (js ''p-17'')
       (initialTable [patientAna])) = []"
  using failure_keeps_state
    [of offline mariaSilva NetworkError translate
        "editing mariaSilva (initialTable [patientAna])" offline "js ''p-17''"]
    failure_keeps_state
    [of offline mariaSilva NetworkError translate
        "initialTable [patientAna]" offline "js ''p-17''"]
  by (simp add: editing_def initialTable_def translate_def offline_def NewPatientForm_eta)


section \<open>The document cell\<close>

lemma startsWith_append: "startsWith (js (p @ q) @ s) (js p)"
  by (simp add: startsWith_def js_def)

lemma startsWith_RG: "startsWith (js ''RG: '' @ s) (js ''RG:'')"
  using startsWith_append [of "''RG:''" "'' ''" s] by simp

lemma startsWith_CPF: "startsWith (js ''CPF: '' @ s) (js ''CPF:'')"
  using startsWith_append [of "''CPF:''" "'' ''" s] by simp

lemma not_startsWith_CPF_RG: "\<not> startsWith (js ''CPF: '' @ s) (js ''RG:'')"
  by (simp add: startsWith_def js_def)

text \<open>A document of 11 digits has at least 11 code units, so its label is the CPF one.\<close>

lemma documentCell_digits_11:
  assumes "digitLength (document_p row) = 11"
  shows "startsWith (documentCell rgMask cpfMask row) (js ''CPF:'')"
proof -
  have "length (filter isDigit (document_p row)) \<le> length (document_p row)"
    by (rule length_filter_le)
  with assms have "length (document_p row) \<noteq> 9"
    by (simp add: digitLength_def)
  then show ?thesis
    by (simp add: documentCell_def Let_def startsWith_CPF)
qed

text \<open>
  C5. A stored document with 9 digits and a separator (\<open>1234567-89\<close>, which the form's
  document rule accepts) has 10 code units, and its cell is labelled \<open>CPF:\<close>, not \<open>RG:\<close>.
\<close>

theorem documentCell_punctuated_rg:
  "digitLength (document_p patientAna) = 9
   \<and> document_refine (document_p patientAna)
   \<and> documentCell rgMask cpfMask patientAna = js ''CPF: '' @ cpfMask (js ''1234567-89'')
   \<and> \<not> startsWith (documentCell rgMask cpfMask patientAna) (js ''RG:'')"
proof -
  have d: "document_p patientAna = js ''1234567-89''"
    by (simp add: patientAna_def)
  have n: "digitLength (js ''1234567-89'') = 9"
    by (simp add: digitLength_def js_def isDigit_def)
  have v: "document_refine (js ''1234567-89'')"
    by (simp add: document_refine_def testDigits_def js_def isDigit_def)
  have l: "length (js ''1234567-89'') = 10"
    by (simp add: js_def)
  have c: "documentCell rgMask cpfMask patientAna = js ''CPF: '' @ cpfMask (js ''1234567-89'')"
    by (simp add: documentCell_def Let_def d l)
  show ?thesis
    by (simp only: d n v c not_startsWith_CPF_RG simp_thms)
qed

text \<open>
  C9. The cell chooses its label by the length of the stored string in code units, not by
  its number of digits: whenever that length is not 9 the label starts with \<open>CPF:\<close>, and
  whenever it is 9 the label starts with \<open>RG:\<close>.
\<close>

theorem documentCell_branches_on_length:
  "(length (document_p row) \<noteq> 9 \<longrightarrow>
      startsWith (documentCell rgMask cpfMask row) (js ''CPF:''))
   \<and> (length (document_p row) = 9 \<longrightarrow>
      startsWith (documentCell rgMask cpfMask row) (js ''RG:''))"
  by (simp add: documentCell_def Let_def startsWith_CPF startsWith_RG)

theorem documentCell_branches_on_length_witness:
  "length (document_p patientAna) \<noteq> 9 \<and> digitLength (document_p patientAna) = 9
   \<and> startsWith (documentCell (\<lambda>d. d) (\<lambda>d. d) patientAna) (js ''CPF:'')
   \<and> length (document_p (patientAna\<lparr>document_p := js ''12345678X''\<rparr>)) = 9
   \<and> startsWith (documentCell (\<lambda>d. d) (\<lambda>d. d) (patientAna\<lparr>document_p := js ''12345678X''\<rparr>))
        (js ''RG:'')"
proof -
  have a: "length (document_p patientAna) \<noteq> 9"
    by (simp add: patientAna_def js_def)
  have b: "length (document_p (patientAna\<lparr>document_p := js ''12345678X''\<rparr>)) = 9"
    by (simp add: js_def)
  have c: "digitLength (document_p patientAna) = 9"
    by (simp add: patientAna_def digitLength_def js_def isDigit_def)
  show ?thesis
    using documentCell_branches_on_length [of patientAna "\<lambda>d. d" "\<lambda>d. d"]
      documentCell_branches_on_length
        [of "patientAna\<lparr>document_p := js ''12345678X''\<rparr>" "\<lambda>d. d" "\<lambda>d. d"]
      a b c
    by simp
qed


section \<open>The tiles of the home page\<close>

lemma card_distinct:
  "cardAnamnese \<noteq> cardAgenda" "cardAnamnese \<noteq> cardFinanceiro"
  "cardAnamnese \<noteq> cardPacientes" "cardAnamnese \<noteq> cardReceituario"
  by (simp_all add: cardAnamnese_def cardAgenda_def cardFinanceiro_def cardPacientes_def
      cardReceituario_def js_def)

text \<open>
  C7. The Anamnese tile is rendered exactly when the fetched user record carries a
  \<open>crm\<close>, which is what the guard \<open>user?.crm &&\<close> tests: the user has been fetched and its
  \<open>crm\<close> is present (an identifier that is absent or empty is no identifier). The other
  four tiles are rendered whatever the user is, in the same order.
\<close>

theorem anamnesis_tile_iff_crm:
  "(cardAnamnese \<in> set (Home user)) = truthy (user_crm user)
   \<and> truthy (user_crm user) = (\<exists>u c. user = Some u \<and> crm u = Some c \<and> c \<noteq> [])
   \<and> filter (\<lambda>c. c \<noteq> cardAnamnese) (Home user)
       = [cardAgenda, cardFinanceiro, cardPacientes, cardReceituario]"
proof -
  have tile: "(cardAnamnese \<in> set (Home user)) = truthy (user_crm user)"
    by (simp add: Home_def card_distinct)
  have present: "truthy (user_crm user)
      = (\<exists>u c. user = Some u \<and> crm u = Some c \<and> c \<noteq> [])"
    by (auto simp: truthy_def user_crm_def split: option.splits)
  have others: "filter (\<lambda>c. c \<noteq> cardAnamnese) (Home user)
       = [cardAgenda, cardFinanceiro, cardPacientes, cardReceituario]"
    using card_distinct by (auto simp: Home_def)
  from tile present others show ?thesis
    by (simp only: simp_thms)
qed

theorem anamnesis_tile_iff_crm_witness:
  "cardAnamnese \<in> set (Home (Some \<lparr>crm = Some (js ''123456'')\<rparr>))
   \<and> cardAnamnese \<notin> set (Home (Some \<lparr>crm = None\<rparr>))
   \<and> cardAnamnese \<notin> set (Home None)
   \<and> Home (Some \<lparr>crm = Some (js ''123456'')\<rparr>)
       = [cardAgenda, cardFinanceiro, cardPacientes, cardAnamnese, cardReceituario]
   \<and> filter (\<lambda>c. c \<noteq> cardAnamnese) (Home None)
       = [cardAgenda, cardFinanceiro, cardPacientes, cardReceituario]"
  using anamnesis_tile_iff_crm [of "Some \<lparr>crm = Some (js ''123456'')\<rparr>"]
    anamnesis_tile_iff_crm [of "Some \<lparr>crm = None\<rparr>"]
    anamnesis_tile_iff_crm [of None]
  by (simp add: Home_def truthy_def user_crm_def js_def)

end
